theory Spec2Isabelle
  imports Main
begin

section \<open>The upload/ask client of \<^verbatim>\<open>static/js/app.js\<close>\<close>

text \<open>
  The script keeps one global, \<^verbatim>\<open>DATASET_ID\<close>, and a handful of page elements that its
  handlers read and write. The handlers are modelled as functions on a record of that
  state. What the browser and the plotting library answer (the outcome of \<^verbatim>\<open>fetch\<close> and
  \<^verbatim>\<open>resp.json()\<close>, of \<^verbatim>\<open>Plotly.newPlot\<close> and of \<^verbatim>\<open>Plotly.toImage\<close>) is an argument of the
  handler; what the script asks of them (alerts, requests, console output, plot and
  export calls, file saves) is appended to a log kept in the state. A handler that awaits
  is split where it first awaits, into the part that runs at once and the part that runs
  when the outcome is known; the handler as a whole is the second part after the first,
  with nothing else running in between.
\<close>

subsection \<open>Strings\<close>

text \<open>
  A JavaScript string is a sequence of UTF-16 code units. \<open>lit\<close> turns an ASCII literal
  of the source into that representation.
\<close>

type_synonym jstring = "nat list"

definition lit :: "string \<Rightarrow> jstring" where
  "lit s = map of_char s"

text \<open>
  \<^verbatim>\<open>String.prototype.trim\<close> removes the code units of the WhiteSpace and LineTerminator
  productions from both ends: TAB, LF, VT, FF, CR, SP, NBSP, U+1680, U+2000 to U+200A,
  U+2028, U+2029, U+202F, U+205F, U+3000 and U+FEFF.
\<close>

definition is_js_space :: "nat \<Rightarrow> bool" where
  "is_js_space c \<longleftrightarrow>
     (9 \<le> c \<and> c \<le> 13) \<or> c = 32 \<or> c = 160 \<or> c = 5760 \<or> (8192 \<le> c \<and> c \<le> 8202) \<or>
     c = 8232 \<or> c = 8233 \<or> c = 8239 \<or> c = 8287 \<or> c = 12288 \<or> c = 65279"

definition trim :: "jstring \<Rightarrow> jstring" where
  "trim s = rev (dropWhile is_js_space (rev (dropWhile is_js_space s)))"

text \<open>
  The decimal digits of a length or a count, as \<^verbatim>\<open>ToString\<close> prints an integer below
  \<open>10\<^sup>2\<^sup>1\<close>.
\<close>

fun show_nat :: "nat \<Rightarrow> jstring" where
  "show_nat n = (if n < 10 then [48 + n] else show_nat (n div 10) @ [48 + n mod 10])"

declare show_nat.simps [simp del]

fun join_comma :: "jstring list \<Rightarrow> jstring" where
  "join_comma [] = []"
| "join_comma [x] = x"
| "join_comma (x # y # ys) = x @ 44 # join_comma (y # ys)"

subsection \<open>Values\<close>

text \<open>
  The values the handlers meet: what \<^verbatim>\<open>JSON.parse\<close> produces (null, booleans, numbers,
  strings, arrays, objects with their own properties in order) and \<^verbatim>\<open>undefined\<close>, which
  reading a missing property yields. A number is a double. The script does two things
  with one, it tests it and it prints it, and \<open>JNum\<close> keeps just that: whether the number
  is nonzero, and the text \<^verbatim>\<open>ToString\<close> gives for it (which is in exponent form from
  \<open>10\<^sup>2\<^sup>1\<close> on and has a fraction for a number that is no integer). \<open>num\<close> is the number of a
  length or a count.
\<close>

datatype json =
    JNull
  | JUndefined
  | JBool bool
  | JNum bool jstring
  | JStr jstring
  | JArr "json list"
  | JObj "(jstring \<times> json) list"

definition num :: "nat \<Rightarrow> json" where
  "num n = JNum (n \<noteq> 0) (show_nat n)"

text \<open>\<^verbatim>\<open>ToBoolean\<close>: what \<^verbatim>\<open>!x\<close>, \<^verbatim>\<open>x || y\<close>, \<^verbatim>\<open>x && y\<close> and \<^verbatim>\<open>x ? y : z\<close> test.\<close>

fun truthy :: "json \<Rightarrow> bool" where
  "truthy JNull = False"
| "truthy JUndefined = False"
| "truthy (JBool b) = b"
| "truthy (JNum nonzero text) = nonzero"
| "truthy (JStr s) = (s \<noteq> [])"
| "truthy (JArr _) = True"
| "truthy (JObj _) = True"

definition nullish :: "json \<Rightarrow> bool" where
  "nullish v \<longleftrightarrow> v = JNull \<or> v = JUndefined"

text \<open>
  Exceptions. \<open>Error\<close> is what the script throws itself; the others come from the
  runtime and the library (a property read on null or undefined, a value that has no
  conversion to a string, a call of something that is no function, a name that is not
  bound, a rejected \<^verbatim>\<open>fetch\<close> or \<^verbatim>\<open>resp.json()\<close>); \<open>Exception\<close> is an exception object of
  any other class, by the name of the class and the message. \<open>message\<close> is
  \<^verbatim>\<open>e.message\<close>. The wording of the messages the runtime makes up is V8's.
\<close>

datatype exn =
    Error jstring
  | TypeError jstring
  | SyntaxError jstring
  | ReferenceError jstring
  | Exception jstring jstring

fun message :: "exn \<Rightarrow> jstring" where
  "message (Error m) = m"
| "message (TypeError m) = m"
| "message (SyntaxError m) = m"
| "message (ReferenceError m) = m"
| "message (Exception name m) = m"

text \<open>The results of a sequence of steps, up to the first that throws.\<close>

fun collect :: "(exn + 'a) list \<Rightarrow> exn + 'a list" where
  "collect [] = Inr []"
| "collect (Inl e # rs) = Inl e"
| "collect (Inr x # rs) = (case collect rs of Inl e \<Rightarrow> Inl e | Inr xs \<Rightarrow> Inr (x # xs))"

text \<open>
  \<^verbatim>\<open>ToString\<close>, as a template literal, \<^verbatim>\<open>new Error(x)\<close>, the \<^verbatim>\<open>innerText\<close> setter and the
  conversion of a property key apply it. It can throw. An object prints through its
  \<^verbatim>\<open>toString\<close> member: the inherited one gives \<^verbatim>\<open>[object Object]\<close>, but an own property
  of that name, which in parsed JSON is never a function, hides it, and then no
  conversion is left (the inherited \<^verbatim>\<open>valueOf\<close> returns the object itself) and a TypeError
  is thrown. An array prints its elements in order, joined by commas, with null and
  undefined elements printed as nothing; an element that throws makes the array throw.
\<close>

fun to_string :: "json \<Rightarrow> exn + jstring" where
  "to_string JNull = Inr (lit ''null'')"
| "to_string JUndefined = Inr (lit ''undefined'')"
| "to_string (JBool b) = Inr (if b then lit ''true'' else lit ''false'')"
| "to_string (JNum nonzero text) = Inr text"
| "to_string (JStr s) = Inr s"
| "to_string (JArr xs) =
     (case collect (map (\<lambda>x. if x = JNull \<or> x = JUndefined then Inr [] else to_string x) xs) of
        Inl e \<Rightarrow> Inl e
      | Inr texts \<Rightarrow> Inr (join_comma texts))"
| "to_string (JObj kvs) =
     (case map_of kvs (lit ''toString'') of
        None \<Rightarrow> Inr (lit ''[object Object]'')
      | Some _ \<Rightarrow> Inl (TypeError (lit ''Cannot convert object to primitive value'')))"

subsection \<open>Reading properties\<close>

text \<open>
  The own properties of a value. An object has the properties it was parsed with; an
  array and a string have their indices and \<^verbatim>\<open>length\<close>; numbers and booleans have none.
\<close>

definition is_digit :: "nat \<Rightarrow> bool" where
  "is_digit c \<longleftrightarrow> 48 \<le> c \<and> c \<le> 57"

text \<open>An array index is written in decimal with no leading zero.\<close>

fun is_index :: "jstring \<Rightarrow> bool" where
  "is_index [] = False"
| "is_index [c] = is_digit c"
| "is_index (c # cs) = (is_digit c \<and> c \<noteq> 48 \<and> list_all is_digit cs)"

fun index_of :: "nat \<Rightarrow> jstring \<Rightarrow> nat" where
  "index_of acc [] = acc"
| "index_of acc (c # cs) = index_of (10 * acc + (c - 48)) cs"

fun has_own :: "json \<Rightarrow> jstring \<Rightarrow> bool" where
  "has_own (JObj kvs) k = (map_of kvs k \<noteq> None)"
| "has_own (JArr xs) k = (k = lit ''length'' \<or> is_index k \<and> index_of 0 k < length xs)"
| "has_own (JStr s) k = (k = lit ''length'' \<or> is_index k \<and> index_of 0 k < length s)"
| "has_own _ k = False"

fun own_property :: "json \<Rightarrow> jstring \<Rightarrow> json" where
  "own_property (JObj kvs) k = (case map_of kvs k of None \<Rightarrow> JUndefined | Some v \<Rightarrow> v)"
| "own_property (JArr xs) k =
     (if k = lit ''length'' then num (length xs)
      else if is_index k \<and> index_of 0 k < length xs then xs ! index_of 0 k
      else JUndefined)"
| "own_property (JStr s) k =
     (if k = lit ''length'' then num (length s)
      else if is_index k \<and> index_of 0 k < length s then JStr [s ! index_of 0 k]
      else JUndefined)"
| "own_property _ k = JUndefined"

text \<open>
  A read by a fixed name, as in \<^verbatim>\<open>data.error\<close>. On null and undefined it throws a
  TypeError. Otherwise it yields the own property of that name, or undefined: none of
  the names the script reads this way (\<^verbatim>\<open>error\<close>, \<^verbatim>\<open>answer\<close>, \<^verbatim>\<open>figure\<close>, \<^verbatim>\<open>data\<close>,
  \<^verbatim>\<open>layout\<close>, \<^verbatim>\<open>agg_preview\<close>, \<^verbatim>\<open>dataset_id\<close>, \<^verbatim>\<open>meta\<close>, \<^verbatim>\<open>summary\<close>, \<^verbatim>\<open>quick_trend\<close>,
  \<^verbatim>\<open>rows\<close>, \<^verbatim>\<open>cols\<close>, \<^verbatim>\<open>columns\<close>, \<^verbatim>\<open>logical_types\<close>) is a member of a built-in prototype.
\<close>

definition get_prop :: "json \<Rightarrow> jstring \<Rightarrow> exn + json" where
  "get_prop v k =
     (if nullish v
      then Inl (TypeError (lit ''Cannot read properties of '' @
                           (if v = JNull then lit ''null'' else lit ''undefined'') @
                           lit '' (reading '' @ [39] @ k @ [39] @ lit '')''))
      else Inr (own_property v k))"

text \<open>
  A read by a computed key, as in \<^verbatim>\<open>meta.logical_types[c]\<close>, can also reach a member
  that the value inherits from its prototype: a built-in function, the constructor, or
  through \<^verbatim>\<open>__proto__\<close> the prototype itself. Such a member is never a JSON value; the
  script only prints what it reads, so it is kept as the text it prints as. The members
  are those of ECMAScript 2024 with its Annex B, and a built-in function prints the way
  V8 prints it.
\<close>

datatype member = Value json | Builtin jstring

definition object_members :: "string list" where
  "object_members =
     [''hasOwnProperty'', ''isPrototypeOf'', ''propertyIsEnumerable'', ''toLocaleString'',
      ''toString'', ''valueOf'', ''__defineGetter__'', ''__defineSetter__'',
      ''__lookupGetter__'', ''__lookupSetter__'']"

definition array_members :: "string list" where
  "array_members =
     [''at'', ''concat'', ''copyWithin'', ''entries'', ''every'', ''fill'', ''filter'',
      ''find'', ''findIndex'', ''findLast'', ''findLastIndex'', ''flat'', ''flatMap'',
      ''forEach'', ''includes'', ''indexOf'', ''join'', ''keys'', ''lastIndexOf'', ''map'',
      ''pop'', ''push'', ''reduce'', ''reduceRight'', ''reverse'', ''shift'', ''slice'',
      ''some'', ''sort'', ''splice'', ''toReversed'', ''toSorted'', ''toSpliced'',
      ''unshift'', ''values'', ''with'']"

definition string_members :: "string list" where
  "string_members =
     [''at'', ''charAt'', ''charCodeAt'', ''codePointAt'', ''concat'', ''endsWith'',
      ''includes'', ''indexOf'', ''isWellFormed'', ''lastIndexOf'', ''localeCompare'',
      ''match'', ''matchAll'', ''normalize'', ''padEnd'', ''padStart'', ''repeat'',
      ''replace'', ''replaceAll'', ''search'', ''slice'', ''split'', ''startsWith'',
      ''substring'', ''toLocaleLowerCase'', ''toLocaleUpperCase'', ''toLowerCase'',
      ''toUpperCase'', ''toWellFormed'', ''trim'', ''trimEnd'', ''trimStart'', ''substr'',
      ''anchor'', ''big'', ''blink'', ''bold'', ''fixed'', ''fontcolor'', ''fontsize'',
      ''italics'', ''link'', ''small'', ''strike'', ''sub'', ''sup'', ''trimLeft'',
      ''trimRight'']"

definition number_members :: "string list" where
  "number_members = [''toExponential'', ''toFixed'', ''toPrecision'']"

fun prototype_members :: "json \<Rightarrow> string list" where
  "prototype_members (JObj _) = object_members"
| "prototype_members (JArr _) = array_members @ object_members"
| "prototype_members (JStr _) = string_members @ object_members"
| "prototype_members (JNum _ _) = number_members @ object_members"
| "prototype_members (JBool _) = object_members"
| "prototype_members _ = []"

fun constructor_name :: "json \<Rightarrow> string" where
  "constructor_name (JArr _) = ''Array''"
| "constructor_name (JStr _) = ''String''"
| "constructor_name (JNum _ _) = ''Number''"
| "constructor_name (JBool _) = ''Boolean''"
| "constructor_name _ = ''Object''"

text \<open>
  What the prototype of a value prints as: \<^verbatim>\<open>Array.prototype\<close> is an empty array,
  \<^verbatim>\<open>String.prototype\<close> the empty string, \<^verbatim>\<open>Number.prototype\<close> zero and
  \<^verbatim>\<open>Boolean.prototype\<close> false.
\<close>

fun prototype_text :: "json \<Rightarrow> jstring" where
  "prototype_text (JArr _) = []"
| "prototype_text (JStr _) = []"
| "prototype_text (JNum _ _) = lit ''0''"
| "prototype_text (JBool _) = lit ''false''"
| "prototype_text _ = lit ''[object Object]''"

text \<open>
  The text of a built-in function. \<^verbatim>\<open>trimLeft\<close> and \<^verbatim>\<open>trimRight\<close> are the functions
  \<^verbatim>\<open>trimStart\<close> and \<^verbatim>\<open>trimEnd\<close> under a second name.
\<close>

definition native_text :: "jstring \<Rightarrow> jstring" where
  "native_text k =
     lit ''function '' @
     (if k = lit ''trimLeft'' then lit ''trimStart''
      else if k = lit ''trimRight'' then lit ''trimEnd'' else k) @
     lit ''() { [native code] }''"

definition read_member :: "json \<Rightarrow> jstring \<Rightarrow> member" where
  "read_member v k =
     (if has_own v k then Value (own_property v k)
      else if k = lit ''__proto__'' then Builtin (prototype_text v)
      else if k = lit ''constructor'' then Builtin (native_text (lit (constructor_name v)))
      else if k \<in> set (map lit (prototype_members v)) then Builtin (native_text k)
      else Value JUndefined)"

fun member_text :: "member \<Rightarrow> exn + jstring" where
  "member_text (Value v) = to_string v"
| "member_text (Builtin text) = Inr text"

subsection \<open>The page and the browser\<close>

text \<open>
  \<open>chart\<close> is the element \<^verbatim>\<open>chartDiv\<close>: missing from the page (the script tests for
  that), present with no plot (\<^verbatim>\<open>chartDiv.data\<close> unset), or holding the data and layout
  of a plot (\<^verbatim>\<open>chartDiv.data\<close> set).
\<close>

datatype chart = NoChartDiv | Blank | Plotted json json

text \<open>
  A file chosen in \<^verbatim>\<open>fileInput\<close>, known by its name, and the two kinds of request body
  the script builds: a form with the file in its field \<^verbatim>\<open>file\<close>, and the JSON text of a
  value.
\<close>

datatype upload_file = UploadFile jstring

datatype body = FormData upload_file | JsonBody json

record image_options =
  format :: jstring
  height :: nat
  width :: nat

text \<open>
  What the script asks of the browser and of Plotly, in the order it asks. \<open>SaveFile\<close> is
  the click on a temporary anchor with the given \<^verbatim>\<open>href\<close> and \<^verbatim>\<open>download\<close> name.
\<close>

datatype effect =
    Alert jstring
  | Fetch jstring body
  | ConsoleError exn
  | NewPlot json json
  | ToImage chart image_options
  | SaveFile jstring jstring

record card =
  className :: jstring
  innerHTML :: jstring

text \<open>
  The state: the global and the properties of the page elements the handlers touch.
  \<open>metaPanel_hidden\<close> is \<open>None\<close> when the page has no \<^verbatim>\<open>metaPanel\<close>, which
  \<^verbatim>\<open>renderMeta\<close> tests. The elements the script dereferences without a test
  (\<^verbatim>\<open>answerDiv\<close>, \<^verbatim>\<open>previewDiv\<close>, \<^verbatim>\<open>metaSummary\<close>, \<^verbatim>\<open>columnsGrid\<close>, \<^verbatim>\<open>qaPanel\<close>, the
  paragraph of the dropzone) are taken to exist, and \<^verbatim>\<open>alert\<close> and \<^verbatim>\<open>console.error\<close> to
  return normally.
\<close>

record state =
  DATASET_ID :: json
  fileInput_files :: "upload_file list"
  dropzone_text :: jstring
  metaPanel_hidden :: "bool option"
  metaSummary_html :: jstring
  columnsGrid :: "card list"
  qaPanel_hidden :: bool
  questionInput_value :: jstring
  answer_text :: jstring
  preview_text :: jstring
  chartDiv :: chart
  effects :: "effect list"

definition emit :: "effect \<Rightarrow> state \<Rightarrow> state" where
  "emit e s = s\<lparr>effects := effects s @ [e]\<rparr>"

text \<open>
  The two awaits of a request: \<^verbatim>\<open>fetch\<close> rejects, or it resolves and \<^verbatim>\<open>resp.json()\<close>
  rejects, or both resolve to \<^verbatim>\<open>resp.ok\<close> and the parsed body. A request has failed
  when either await rejects or the status is not 2xx.
\<close>

datatype fetch_outcome = FetchRejected exn | JsonRejected exn | Response bool json

fun failed :: "fetch_outcome \<Rightarrow> bool" where
  "failed (FetchRejected e) = True"
| "failed (JsonRejected e) = True"
| "failed (Response ok data) = (\<not> ok)"

text \<open>
  What a call of \<^verbatim>\<open>Plotly.newPlot\<close> on \<^verbatim>\<open>chartDiv\<close> does, which is the library's business:
  the exception it throws before it returns, if any (the library rejects some figures,
  and the name \<^verbatim>\<open>Plotly\<close> may not even be bound), and what the element holds afterwards
  (\<open>None\<close> when \<^verbatim>\<open>chartDiv.data\<close> is left unset, as for a figure without a data array).
\<close>

record plot_outcome =
  thrown :: "exn option"
  held :: "(json \<times> json) option"

text \<open>
  The page as the script finds it when it is loaded: \<^verbatim>\<open>DATASET_ID\<close> is null, no file is
  chosen, nothing is plotted and nothing has been asked of the browser. The panels start
  hidden and the texts empty.
\<close>

definition page_loaded :: state where
  "page_loaded =
     \<lparr>DATASET_ID = JNull, fileInput_files = [], dropzone_text = [],
      metaPanel_hidden = Some True, metaSummary_html = [], columnsGrid = [],
      qaPanel_hidden = True, questionInput_value = [], answer_text = [],
      preview_text = [], chartDiv = Blank, effects = []\<rparr>"

subsection \<open>Rendering the dataset summary\<close>

text \<open>
  The callback of \<^verbatim>\<open>forEach\<close> in \<^verbatim>\<open>renderMeta\<close>, for one element \<open>c\<close> of
  \<^verbatim>\<open>meta.columns\<close>: the card it builds, or the exception it throws. It runs only after
  \<^verbatim>\<open>meta.summary\<close> was read, so \<open>meta\<close> is neither null nor undefined here and reading
  \<^verbatim>\<open>meta.logical_types\<close> does not throw. \<^verbatim>\<open>meta.logical_types[c]\<close> converts \<open>c\<close> to a
  property key, and the template literal converts \<open>c\<close> and then the type to strings;
  each conversion can throw.
\<close>

definition column_card :: "json \<Rightarrow> json \<Rightarrow> exn + card" where
  "column_card meta c =
     (let logical_types = own_property meta (lit ''logical_types'') in
      case (if truthy logical_types
            then (case to_string c of
                    Inl e \<Rightarrow> Inl e
                  | Inr key \<Rightarrow> Inr (read_member logical_types key))
            else Inr (Value (JStr []))) of
        Inl e \<Rightarrow> Inl e
      | Inr type \<Rightarrow>
          (case to_string c of
             Inl e \<Rightarrow> Inl e
           | Inr name \<Rightarrow>
               (case member_text type of
                  Inl e \<Rightarrow> Inl e
                | Inr label \<Rightarrow>
                    Inr \<lparr>className = lit ''card'',
                         innerHTML = lit ''<b>'' @ name @ lit ''</b><br/><small>'' @ label @
                                     lit ''</small>''\<rparr>)))"

text \<open>
  The loop of \<^verbatim>\<open>forEach\<close>: a card is appended for each column in turn, and an exception
  of the callback ends the loop with the cards appended so far.
\<close>

fun append_cards :: "json \<Rightarrow> json list \<Rightarrow> state \<Rightarrow> exn option \<times> state" where
  "append_cards meta [] s = (None, s)"
| "append_cards meta (c # cs) s =
     (case column_card meta c of
        Inl e \<Rightarrow> (Some e, s)
      | Inr el \<Rightarrow> append_cards meta cs (s\<lparr>columnsGrid := columnsGrid s @ [el]\<rparr>))"

text \<open>
  The summary markup is the template literal of the source, with its line breaks (10),
  its indentation and the bullet U+2022. The three values are converted in order.
\<close>

definition summary_html :: "json \<Rightarrow> json \<Rightarrow> json \<Rightarrow> exn + jstring" where
  "summary_html rows cols quickTrend =
     (case to_string rows of
        Inl e \<Rightarrow> Inl e
      | Inr r \<Rightarrow>
          (case to_string cols of
             Inl e \<Rightarrow> Inl e
           | Inr c \<Rightarrow>
               (case to_string quickTrend of
                  Inl e \<Rightarrow> Inl e
                | Inr q \<Rightarrow>
                    Inr (10 # lit ''        <b>Rows:</b> '' @ r @ [32, 8226] @
                         lit '' <b>Columns:</b> '' @ c @ lit ''<br/>'' @
                         10 # lit ''        <b>Quick trend:</b> '' @ q @
                         10 # lit ''    ''))))"

text \<open>
  \<^verbatim>\<open>renderMeta\<close> returns the exception it throws, if any, and the state it leaves. The
  placeholder trend is the dash U+2014. A truthy \<^verbatim>\<open>meta.columns\<close> that is no array has no
  \<^verbatim>\<open>forEach\<close> to call.
\<close>

definition renderMeta :: "json \<Rightarrow> state \<Rightarrow> exn option \<times> state" where
  "renderMeta meta s =
     (case metaPanel_hidden s of
        None \<Rightarrow> (None, s)
      | Some _ \<Rightarrow>
          let s1 = s\<lparr>metaPanel_hidden := Some False\<rparr> in
          (case get_prop meta (lit ''summary'') of
             Inl e \<Rightarrow> (Some e, s1)
           | Inr summary \<Rightarrow>
               let quickTrend =
                     (if truthy summary \<and> truthy (own_property summary (lit ''quick_trend''))
                      then own_property summary (lit ''quick_trend'')
                      else JStr [8212])
               in (case summary_html (own_property meta (lit ''rows''))
                          (own_property meta (lit ''cols'')) quickTrend of
                     Inl e \<Rightarrow> (Some e, s1)
                   | Inr html \<Rightarrow>
                       let s2 = s1\<lparr>metaSummary_html := html\<rparr>;
                           s3 = s2\<lparr>columnsGrid := []\<rparr>;
                           columns = own_property meta (lit ''columns'')
                       in (case (if truthy columns then columns else JArr []) of
                             JArr cs \<Rightarrow> append_cards meta cs s3
                           | _ \<Rightarrow>
                               (Some (TypeError
                                  (lit ''(meta.columns || []).forEach is not a function'')),
                                s3)))))"

subsection \<open>File upload\<close>

text \<open>
  \<^verbatim>\<open>handleUpload\<close> up to its first \<^verbatim>\<open>await\<close>: the state it leaves, and whether a request
  is now pending.
\<close>

definition handleUpload_start :: "state \<Rightarrow> state \<times> bool" where
  "handleUpload_start s =
     (case fileInput_files s of
        [] \<Rightarrow> (s, False)
      | file # _ \<Rightarrow>
          (emit (Fetch (lit ''/api/upload'') (FormData file))
             (s\<lparr>dropzone_text := lit ''Uploading...''\<rparr>), True))"

text \<open>
  \<^verbatim>\<open>new Error(err || fallback)\<close>, thrown: the exception that reaches the \<^verbatim>\<open>catch\<close> block
  is the new error, or the TypeError of the conversion of a truthy \<open>err\<close> to a string.
\<close>

definition throw_new_Error :: "json \<Rightarrow> jstring \<Rightarrow> exn" where
  "throw_new_Error err fallback =
     (case to_string (if truthy err then err else JStr fallback) of
        Inl e \<Rightarrow> e
      | Inr text \<Rightarrow> Error text)"

text \<open>
  The rest of \<^verbatim>\<open>handleUpload\<close>, run when the request has its outcome: the \<^verbatim>\<open>try\<close>
  block, which yields the exception it throws, if any, and the state it leaves, and the
  \<^verbatim>\<open>catch\<close> block. After the first read of a property of \<open>data\<close> has not thrown,
  \<open>data\<close> is neither null nor undefined and the later reads cannot throw.
\<close>

definition upload_catch :: "exn \<Rightarrow> state \<Rightarrow> state" where
  "upload_catch e s = (emit (ConsoleError e) s)\<lparr>dropzone_text := lit ''Error: '' @ message e\<rparr>"

definition handleUpload_try :: "fetch_outcome \<Rightarrow> state \<Rightarrow> exn option \<times> state" where
  "handleUpload_try out s =
     (case out of
        FetchRejected e \<Rightarrow> (Some e, s)
      | JsonRejected e \<Rightarrow> (Some e, s)
      | Response ok data \<Rightarrow>
          if \<not> ok then
            (case get_prop data (lit ''error'') of
               Inl e \<Rightarrow> (Some e, s)
             | Inr err \<Rightarrow> (Some (throw_new_Error err (lit ''Upload failed'')), s))
          else
            (case get_prop data (lit ''dataset_id'') of
               Inl e \<Rightarrow> (Some e, s)
             | Inr dataset_id \<Rightarrow>
                 let s1 = s\<lparr>DATASET_ID := dataset_id\<rparr> in
                 (case renderMeta (own_property data (lit ''meta'')) s1 of
                    (Some e, s2) \<Rightarrow> (Some e, s2)
                  | (None, s2) \<Rightarrow>
                      (None, s2\<lparr>dropzone_text := lit ''Upload complete! Ask a question below.'',
                                qaPanel_hidden := False\<rparr>))))"

definition handleUpload_resume :: "fetch_outcome \<Rightarrow> state \<Rightarrow> state" where
  "handleUpload_resume out s =
     (case handleUpload_try out s of
        (Some e, s1) \<Rightarrow> upload_catch e s1
      | (None, s1) \<Rightarrow> s1)"

definition handleUpload :: "fetch_outcome \<Rightarrow> state \<Rightarrow> state" where
  "handleUpload out s =
     (case handleUpload_start s of
        (s1, True) \<Rightarrow> handleUpload_resume out s1
      | (s1, False) \<Rightarrow> s1)"

subsection \<open>Asking a question\<close>

text \<open>
  The call \<^verbatim>\<open>Plotly.newPlot(chartDiv, d, l, ...)\<close> with its outcome \<open>plot\<close>: the call is
  logged, the element holds what the library left in it, and the exception, if any, is
  handed on.
\<close>

definition newPlot :: "plot_outcome \<Rightarrow> json \<Rightarrow> json \<Rightarrow> state \<Rightarrow> exn option \<times> state" where
  "newPlot plot d l s =
     (thrown plot,
      (emit (NewPlot d l) s)
        \<lparr>chartDiv := (case held plot of None \<Rightarrow> Blank | Some (d', l') \<Rightarrow> Plotted d' l')\<rparr>)"

text \<open>The request \<^verbatim>\<open>askQuestion\<close> sends: the dataset handle and the trimmed question.\<close>

definition ask_request :: "state \<Rightarrow> effect" where
  "ask_request s =
     Fetch (lit ''/api/ask'')
       (JsonBody (JObj [(lit ''dataset_id'', DATASET_ID s),
                        (lit ''question'', JStr (trim (questionInput_value s)))]))"

text \<open>
  \<^verbatim>\<open>askQuestion\<close> up to its first \<^verbatim>\<open>await\<close>: the two early returns, then the placeholder
  and the request.
\<close>

definition askQuestion_start :: "state \<Rightarrow> state \<times> bool" where
  "askQuestion_start s =
     (let q = trim (questionInput_value s) in
      if q = [] then (s, False)
      else if \<not> truthy (DATASET_ID s) then
        (emit (Alert (lit ''Upload a dataset first.'')) s, False)
      else
        (emit (ask_request s) (s\<lparr>answer_text := lit ''Thinking...'', preview_text := []\<rparr>),
         True))"

text \<open>
  The lines of the \<^verbatim>\<open>try\<close> block that write the preview: they run only when nothing
  before them has thrown.
\<close>

definition write_preview :: "json \<Rightarrow> state \<Rightarrow> state" where
  "write_preview data s =
     (case own_property data (lit ''agg_preview'') of
        JArr rows \<Rightarrow>
          if length rows > 0
          then s\<lparr>preview_text := lit ''Preview rows: '' @ show_nat (length rows)\<rparr>
          else s\<lparr>preview_text := []\<rparr>
      | _ \<Rightarrow> s\<lparr>preview_text := []\<rparr>)"

text \<open>
  The rest of \<^verbatim>\<open>askQuestion\<close>, run when the request has its outcome: the \<^verbatim>\<open>try\<close>
  block and the \<^verbatim>\<open>catch\<close> block. In the \<^verbatim>\<open>try\<close> block of a 2xx response, reading
  \<^verbatim>\<open>data.answer\<close>, converting the answer to the text of \<^verbatim>\<open>answerDiv\<close> and the call of
  \<^verbatim>\<open>Plotly.newPlot\<close> can each throw, and what follows is then skipped.
\<close>

definition ask_catch :: "exn \<Rightarrow> state \<Rightarrow> state" where
  "ask_catch e s = (emit (ConsoleError e) s)\<lparr>answer_text := lit ''Error: '' @ message e\<rparr>"

definition askQuestion_try ::
    "plot_outcome \<Rightarrow> fetch_outcome \<Rightarrow> state \<Rightarrow> exn option \<times> state" where
  "askQuestion_try plot out s =
     (case out of
        FetchRejected e \<Rightarrow> (Some e, s)
      | JsonRejected e \<Rightarrow> (Some e, s)
      | Response ok data \<Rightarrow>
          if \<not> ok then
            (case get_prop data (lit ''error'') of
               Inl e \<Rightarrow> (Some e, s)
             | Inr err \<Rightarrow> (Some (throw_new_Error err (lit ''Ask failed'')), s))
          else
            (case get_prop data (lit ''answer'') of
               Inl e \<Rightarrow> (Some e, s)
             | Inr answer \<Rightarrow>
                 (case to_string (if truthy answer then answer
                                  else JStr (lit ''(No insight returned)'')) of
                    Inl e \<Rightarrow> (Some e, s)
                  | Inr text \<Rightarrow>
                      let s1 = s\<lparr>answer_text := text\<rparr>;
                          figure = own_property data (lit ''figure'')
                      in (case (if truthy figure \<and> chartDiv s1 \<noteq> NoChartDiv
                                then newPlot plot (own_property figure (lit ''data''))
                                       (own_property figure (lit ''layout'')) s1
                                else (None, s1)) of
                            (Some e, s2) \<Rightarrow> (Some e, s2)
                          | (None, s2) \<Rightarrow> (None, write_preview data s2)))))"

definition askQuestion_resume :: "plot_outcome \<Rightarrow> fetch_outcome \<Rightarrow> state \<Rightarrow> state" where
  "askQuestion_resume plot out s =
     (case askQuestion_try plot out s of
        (Some e, s1) \<Rightarrow> ask_catch e s1
      | (None, s1) \<Rightarrow> s1)"

definition askQuestion :: "plot_outcome \<Rightarrow> fetch_outcome \<Rightarrow> state \<Rightarrow> state" where
  "askQuestion plot out s =
     (case askQuestion_start s of
        (s1, True) \<Rightarrow> askQuestion_resume plot out s1
      | (s1, False) \<Rightarrow> s1)"

subsection \<open>Downloading the chart as PNG\<close>

text \<open>
  The click handler of \<^verbatim>\<open>downloadPngBtn\<close>. \<open>exported\<close> is the outcome of
  \<^verbatim>\<open>Plotly.toImage\<close>: the data URL it resolves to, or the exception it throws or rejects
  with. The anchor the handler creates is removed again, so the page is left as it was.
\<close>

definition downloadPng_click :: "exn + jstring \<Rightarrow> state \<Rightarrow> state" where
  "downloadPng_click exported s =
     (case chartDiv s of
        Plotted d l \<Rightarrow>
          let s1 = emit (ToImage (chartDiv s)
                           \<lparr>format = lit ''png'', height = 600, width = 1000\<rparr>) s in
          (case exported of
             Inr dataUrl \<Rightarrow> emit (SaveFile dataUrl (lit ''chart.png'')) s1
           | Inl e \<Rightarrow>
               emit (Alert (lit ''Could not download chart as PNG.'')) (emit (ConsoleError e) s1))
      | _ \<Rightarrow> emit (Alert (lit ''No chart available to download.'')) s)"

subsection \<open>Example inputs\<close>

text \<open>
  The metadata of the specification's example: three columns, of which only \<^verbatim>\<open>a\<close> has
  an entry in \<^verbatim>\<open>logical_types\<close>.
\<close>

definition example_meta :: json where
  "example_meta =
     JObj [(lit ''rows'', num 10), (lit ''cols'', num 3),
           (lit ''columns'', JArr [JStr (lit ''a''), JStr (lit ''b''), JStr (lit ''c'')]),
           (lit ''logical_types'', JObj [(lit ''a'', JStr (lit ''numeric''))])]"

text \<open>
  A page in use: the dataset \<^verbatim>\<open>d1\<close> is uploaded, an earlier question has left an answer,
  a preview line and a chart, and the next question is typed.
\<close>

definition page_in_use :: state where
  "page_in_use =
     page_loaded
       \<lparr>DATASET_ID := JStr (lit ''d1''),
        metaPanel_hidden := Some False,
        qaPanel_hidden := False,
        questionInput_value := lit '' mean of a? '',
        answer_text := lit ''The total is 42.'',
        preview_text := lit ''Preview rows: 7'',
        chartDiv := Plotted (JArr [JObj [(lit ''type'', JStr (lit ''bar''))]]) (JObj [])\<rparr>"

text \<open>
  A call of \<^verbatim>\<open>Plotly.newPlot\<close> that draws a line chart and returns, and one that throws
  on a figure the library rejects and leaves the element without a plot.
\<close>

definition plot_drawn :: plot_outcome where
  "plot_drawn =
     \<lparr>thrown = None,
      held = Some (JArr [JObj [(lit ''type'', JStr (lit ''scatter''))]], JObj [])\<rparr>"



definition error_without_text :: json where
  "error_without_text = JObj [(lit ''error'', JObj [(lit ''toString'', num 1)])]"

section \<open>Properties\<close>

subsection \<open>Auxiliary facts\<close>

lemma emit_fields [simp]:
  "DATASET_ID (emit e s) = DATASET_ID s"
  "chartDiv (emit e s) = chartDiv s"
  "answer_text (emit e s) = answer_text s"
  "preview_text (emit e s) = preview_text s"
  "dropzone_text (emit e s) = dropzone_text s"
  "questionInput_value (emit e s) = questionInput_value s"
  "fileInput_files (emit e s) = fileInput_files s"
  "effects (emit e s) = effects s @ [e]"
  by (simp_all add: emit_def)

lemma write_preview_fields [simp]:
  "DATASET_ID (write_preview data s) = DATASET_ID s"
  "chartDiv (write_preview data s) = chartDiv s"
  "answer_text (write_preview data s) = answer_text s"
  "effects (write_preview data s) = effects s"
  by (simp_all add: write_preview_def split: json.splits)

lemma truthy_property_not_nullish: "truthy (own_property data k) \<Longrightarrow> \<not> nullish data"
  by (cases data) (simp_all add: nullish_def)



lemma throw_new_Error_cases:
  "truthy err \<Longrightarrow> to_string err = Inr text \<Longrightarrow> throw_new_Error err fallback = Error text"
  "truthy err \<Longrightarrow> to_string err = Inl t \<Longrightarrow> throw_new_Error err fallback = t"
  "\<not> truthy err \<Longrightarrow> throw_new_Error err fallback = Error fallback"
  by (simp_all add: throw_new_Error_def)

text \<open>\<open>show_nat\<close> prints decimal digits, and reading them back gives the number.\<close>

lemma index_of_append: "index_of acc (xs @ ys) = index_of (index_of acc xs) ys"
  by (induction xs arbitrary: acc) simp_all

lemma show_nat_decimal: "index_of 0 (show_nat n) = n \<and> list_all is_digit (show_nat n)"
proof (induction n rule: show_nat.induct)
  case (1 n)
  show ?case
  proof (cases "n < 10")
    case True
    then show ?thesis
      by (subst (1 2) show_nat.simps) (simp add: is_digit_def)
  next
    case False
    with 1 have ih: "index_of 0 (show_nat (n div 10)) = n div 10"
      and dg: "list_all is_digit (show_nat (n div 10))" by simp_all
    have "n mod 10 < 10" by simp
    with False ih dg show ?thesis
      by (subst (1 2) show_nat.simps) (simp add: index_of_append is_digit_def)
  qed
qed

text \<open>Evaluation of the functions on strings at literals.\<close>

lemmas string_eval = lit_def trim_def is_js_space_def

subsection \<open>The frame of \<^verbatim>\<open>askQuestion\<close>\<close>

lemma askQuestion_issued:
  assumes "trim (questionInput_value s) \<noteq> []" and "truthy (DATASET_ID s)"
  shows "askQuestion plot out s =
           askQuestion_resume plot out
             (emit (ask_request s) (s\<lparr>answer_text := lit ''Thinking...'', preview_text := []\<rparr>))"
  using assms by (simp add: askQuestion_def askQuestion_start_def)

lemma newPlot_DATASET_ID: "DATASET_ID (snd (newPlot plot d l s)) = DATASET_ID s"
  by (simp add: newPlot_def)

lemma askQuestion_try_DATASET_ID:
  "DATASET_ID (snd (askQuestion_try plot out s)) = DATASET_ID s"
proof (cases out)
  case (Response ok data)
  show ?thesis
  proof (cases ok)
    case False
    with Response show ?thesis
      by (simp add: askQuestion_try_def split: sum.splits)
  next
    case True
    let ?figure = "own_property data (lit ''figure'')"
    have plot_step:
      "DATASET_ID (snd (case newPlot plot d l s' of
                          (Some e, s2) \<Rightarrow> (Some e, s2)
                        | (None, s2) \<Rightarrow> (None, write_preview data s2))) = DATASET_ID s'"
      for d l s'
      using newPlot_DATASET_ID [of plot d l s']
      by (cases "newPlot plot d l s'") (auto split: option.splits)
    from Response True show ?thesis
      by (simp add: askQuestion_try_def Let_def plot_step split: sum.splits)
  qed
qed (simp_all add: askQuestion_try_def)

lemma askQuestion_resume_DATASET_ID:
  "DATASET_ID (askQuestion_resume plot out s) = DATASET_ID s"
  using askQuestion_try_DATASET_ID [of plot out s]
  by (cases "askQuestion_try plot out s")
     (auto simp add: askQuestion_resume_def ask_catch_def split: option.splits)

lemma askQuestion_start_DATASET_ID:
  "DATASET_ID (fst (askQuestion_start s)) = DATASET_ID s"
  by (simp add: askQuestion_start_def Let_def)

text \<open>
  C7: question submission never modifies the dataset handle. \<^verbatim>\<open>DATASET_ID\<close> is the same
  after \<^verbatim>\<open>askQuestion\<close> as before it, whatever the outcome of the request and of the plot;
  the same holds of each of its two halves, the part before the first \<^verbatim>\<open>await\<close> and the
  part after.
\<close>

theorem askQuestion_keeps_DATASET_ID:
  "DATASET_ID (fst (askQuestion_start s)) = DATASET_ID s \<and>
   DATASET_ID (askQuestion_resume plot out s) = DATASET_ID s \<and>
   DATASET_ID (askQuestion plot out s) = DATASET_ID s"
proof -
  have "DATASET_ID (askQuestion plot out s) = DATASET_ID s"
  proof (cases "askQuestion_start s")
    case (Pair s1 pending)
    then have "DATASET_ID s1 = DATASET_ID s"
      using askQuestion_start_DATASET_ID [of s] by simp
    with Pair show ?thesis
      by (cases pending) (simp_all add: askQuestion_def askQuestion_resume_DATASET_ID)
  qed
  then show ?thesis
    by (simp add: askQuestion_start_DATASET_ID askQuestion_resume_DATASET_ID)
qed

subsection \<open>The early returns of \<^verbatim>\<open>askQuestion\<close>\<close>

text \<open>
  C2: when the question is empty after trimming, \<^verbatim>\<open>askQuestion\<close> does nothing: the state
  after it is the state before it, so no request is logged and the answer, the chart and
  the preview are as they were.
\<close>

theorem askQuestion_blank_is_noop:
  "trim (questionInput_value s) = [] \<Longrightarrow> askQuestion plot out s = s"
  by (simp add: askQuestion_def askQuestion_start_def)

theorem askQuestion_blank_is_noop_witness:
  "trim (questionInput_value (page_in_use\<lparr>questionInput_value := [32, 9, 160]\<rparr>)) = [] \<and>
   askQuestion plot_drawn (Response True (JObj []))
     (page_in_use\<lparr>questionInput_value := [32, 9, 160]\<rparr>) =
   page_in_use\<lparr>questionInput_value := [32, 9, 160]\<rparr>"
proof -
  have blank: "trim (questionInput_value (page_in_use\<lparr>questionInput_value := [32, 9, 160]\<rparr>)) = []"
    by (simp add: string_eval)
  show ?thesis
    using blank askQuestion_blank_is_noop [OF blank, of plot_drawn "Response True (JObj [])"]
    by simp
qed

text \<open>
  C3: a question that is not blank, asked while \<^verbatim>\<open>DATASET_ID\<close> is unset (null, or any
  other falsy value), raises the alert and nothing else: the only change of the state is
  the alert appended to the log, so no request is sent.
\<close>

theorem askQuestion_without_dataset:
  assumes "trim (questionInput_value s) \<noteq> []" and "\<not> truthy (DATASET_ID s)"
  shows "askQuestion plot out s =
           s\<lparr>effects := effects s @ [Alert (lit ''Upload a dataset first.'')]\<rparr>"
  using assms by (simp add: askQuestion_def askQuestion_start_def emit_def)

theorem askQuestion_without_dataset_witness:
  "trim (questionInput_value (page_loaded\<lparr>questionInput_value := lit ''total?''\<rparr>)) \<noteq> [] \<and>
   \<not> truthy (DATASET_ID (page_loaded\<lparr>questionInput_value := lit ''total?''\<rparr>)) \<and>
   effects (askQuestion plot_drawn (Response True (JObj []))
              (page_loaded\<lparr>questionInput_value := lit ''total?''\<rparr>)) =
     [Alert (lit ''Upload a dataset first.'')]"
proof -
  let ?s = "page_loaded\<lparr>questionInput_value := lit ''total?''\<rparr>"
  have q: "trim (questionInput_value ?s) \<noteq> []"
    by (simp add: string_eval)
  have d: "\<not> truthy (DATASET_ID ?s)"
    by (simp add: page_loaded_def)
  show ?thesis
    using q d askQuestion_without_dataset [OF q d, of plot_drawn "Response True (JObj [])"]
    by (simp add: page_loaded_def)
qed

text \<open>
  C10: the blank-question check comes first. With no dataset set, a question that is
  empty after trimming leaves the state as it was, without an alert; and whenever
  \<^verbatim>\<open>askQuestion\<close> adds anything to the log in that situation, the question was not blank.
\<close>

theorem blank_check_precedes_dataset_check:
  assumes "\<not> truthy (DATASET_ID s)"
  shows "(trim (questionInput_value s) = [] \<longrightarrow> askQuestion plot out s = s) \<and>
         (effects (askQuestion plot out s) \<noteq> effects s \<longrightarrow>
            trim (questionInput_value s) \<noteq> [])"
  using assms by (auto simp add: askQuestion_def askQuestion_start_def)

theorem blank_check_precedes_dataset_check_witness:
  "\<not> truthy (DATASET_ID page_loaded) \<and>
   trim (questionInput_value (page_loaded\<lparr>questionInput_value := [32, 32]\<rparr>)) = [] \<and>
   askQuestion plot_drawn (FetchRejected (TypeError (lit ''Failed to fetch'')))
     (page_loaded\<lparr>questionInput_value := [32, 32]\<rparr>) =
   page_loaded\<lparr>questionInput_value := [32, 32]\<rparr> \<and>
   effects (askQuestion plot_drawn (FetchRejected (TypeError (lit ''Failed to fetch'')))
              (page_loaded\<lparr>questionInput_value := lit ''hi''\<rparr>)) \<noteq>
   effects (page_loaded\<lparr>questionInput_value := lit ''hi''\<rparr>) \<and>
   trim (questionInput_value (page_loaded\<lparr>questionInput_value := lit ''hi''\<rparr>)) \<noteq> []"
proof -
  let ?out = "FetchRejected (TypeError (lit ''Failed to fetch''))"
  let ?blank = "page_loaded\<lparr>questionInput_value := [32, 32]\<rparr>"
  let ?hi = "page_loaded\<lparr>questionInput_value := lit ''hi''\<rparr>"
  have d: "\<not> truthy (DATASET_ID page_loaded)"
    by (simp add: page_loaded_def)
  have d1: "\<not> truthy (DATASET_ID ?blank)" and d2: "\<not> truthy (DATASET_ID ?hi)"
    using d by simp_all
  have b: "trim (questionInput_value ?blank) = []"
    by (simp add: string_eval)
  have e: "effects (askQuestion plot_drawn ?out ?hi) \<noteq> effects ?hi"
    by (simp add: askQuestion_def askQuestion_start_def page_loaded_def string_eval)
  show ?thesis
    using d b e blank_check_precedes_dataset_check [OF d1, of plot_drawn ?out]
      blank_check_precedes_dataset_check [OF d2, of plot_drawn ?out]
    by blast
qed

subsection \<open>A successful answer\<close>

lemma askQuestion_resume_caught:
  assumes "askQuestion_try plot out s = (Some e, s')"
  shows "askQuestion_resume plot out s =
           s'\<lparr>effects := effects s' @ [ConsoleError e],
              answer_text := lit ''Error: '' @ message e\<rparr>"
  using assms by (simp add: askQuestion_resume_def ask_catch_def emit_def)










lemma askQuestion_try_ok_chart:
  assumes "\<not> truthy (own_property data (lit ''figure''))"
  shows "chartDiv (snd (askQuestion_try plot (Response True data) s)) = chartDiv s"
  using assms
  by (simp add: askQuestion_try_def Let_def split: sum.splits)

text \<open>
  C9: a 2xx response whose payload has no \<^verbatim>\<open>figure\<close> field leaves the chart element as
  it was before the question; a chart plotted for an earlier question stays.
\<close>

theorem askQuestion_no_figure_keeps_chart:
  assumes "own_property data (lit ''figure'') = JUndefined"
  shows "chartDiv (askQuestion plot (Response True data) s) = chartDiv s"
proof -
  have nf: "\<not> truthy (own_property data (lit ''figure''))"
    using assms by simp
  have resume: "chartDiv (askQuestion_resume plot (Response True data) s') = chartDiv s'" for s'
    using askQuestion_try_ok_chart [OF nf, of plot s']
    by (cases "askQuestion_try plot (Response True data) s'")
       (auto simp add: askQuestion_resume_def ask_catch_def split: option.splits)
  show ?thesis
  proof (cases "askQuestion_start s")
    case (Pair s1 pending)
    then have "chartDiv s1 = chartDiv s"
      by (auto simp add: askQuestion_start_def Let_def split: if_splits)
    with Pair show ?thesis
      by (cases pending) (simp_all add: askQuestion_def resume)
  qed
qed

theorem askQuestion_no_figure_keeps_chart_witness:
  "own_property (JObj [(lit ''answer'', JStr (lit ''The mean is 3.''))]) (lit ''figure'') =
     JUndefined \<and>
   chartDiv (askQuestion plot_drawn
               (Response True (JObj [(lit ''answer'', JStr (lit ''The mean is 3.''))]))
               page_in_use) =
     Plotted (JArr [JObj [(lit ''type'', JStr (lit ''bar''))]]) (JObj [])"
proof -
  let ?data = "JObj [(lit ''answer'', JStr (lit ''The mean is 3.''))]"
  have nf: "own_property ?data (lit ''figure'') = JUndefined"
    by (simp add: lit_def)
  show ?thesis
    using nf askQuestion_no_figure_keeps_chart [OF nf, of plot_drawn page_in_use]
    by (simp add: page_in_use_def)
qed

subsection \<open>A failed answer\<close>

lemma askQuestion_try_failed:
  assumes "failed out"
  shows "\<exists>e. askQuestion_try plot out s = (Some e, s)"
  using assms
  by (cases out) (auto simp add: askQuestion_try_def split: sum.splits)

lemma askQuestion_try_rejected:
  "askQuestion_try plot (FetchRejected e) s = (Some e, s)"
  "askQuestion_try plot (JsonRejected e) s = (Some e, s)"
  by (simp_all add: askQuestion_try_def)

lemma askQuestion_try_not_ok:
  assumes "\<not> nullish data"
  shows "askQuestion_try plot (Response False data) s =
           (Some (throw_new_Error (own_property data (lit ''error'')) (lit ''Ask failed'')), s)"
  using assms by (simp add: askQuestion_try_def get_prop_def)

lemma askQuestion_try_not_ok_nullish:
  assumes "nullish data"
  shows "\<exists>e. get_prop data (lit ''error'') = Inl e \<and>
             askQuestion_try plot (Response False data) s = (Some e, s)"
  using assms by (simp add: askQuestion_try_def get_prop_def)

text \<open>
  C5: when the request of a question that was sent fails (a rejected \<^verbatim>\<open>fetch\<close>, a body
  that does not parse, a response that is not 2xx), the answer area shows \<^verbatim>\<open>Error: \<close>
  followed by the message of the exception \<open>e\<close> that was caught. That exception is the
  rejection itself; or, for a response that is not 2xx, the TypeError of reading
  \<^verbatim>\<open>data.error\<close> when the body is null, an error carrying the backend's \<^verbatim>\<open>error\<close> field
  as text when the field is truthy, the TypeError of that conversion when the field has
  no text, and an error saying \<^verbatim>\<open>Ask failed\<close> when the field is falsy. The chart element
  is as it was, and the handler has asked for the request and the console output only,
  so for no plot.
\<close>

theorem askQuestion_failure:
  assumes "trim (questionInput_value s) \<noteq> []" and "truthy (DATASET_ID s)" and "failed out"
  shows "\<exists>e. answer_text (askQuestion plot out s) = lit ''Error: '' @ message e \<and>
              effects (askQuestion plot out s) = effects s @ [ask_request s, ConsoleError e] \<and>
              chartDiv (askQuestion plot out s) = chartDiv s \<and>
              (\<forall>r. out = FetchRejected r \<or> out = JsonRejected r \<longrightarrow> e = r) \<and>
              (\<forall>data. out = Response False data \<and> nullish data
                 \<longrightarrow> get_prop data (lit ''error'') = Inl e) \<and>
              (\<forall>data str. out = Response False data \<and>
                            truthy (own_property data (lit ''error'')) \<and>
                            to_string (own_property data (lit ''error'')) = Inr str
                 \<longrightarrow> e = Error str) \<and>
              (\<forall>data t. out = Response False data \<and>
                          truthy (own_property data (lit ''error'')) \<and>
                          to_string (own_property data (lit ''error'')) = Inl t
                 \<longrightarrow> e = t) \<and>
              (\<forall>data. out = Response False data \<and> \<not> nullish data \<and>
                        \<not> truthy (own_property data (lit ''error''))
                 \<longrightarrow> e = Error (lit ''Ask failed''))"
proof -
  let ?s1 = "emit (ask_request s) (s\<lparr>answer_text := lit ''Thinking...'', preview_text := []\<rparr>)"
  obtain e where e: "askQuestion_try plot out ?s1 = (Some e, ?s1)"
    using askQuestion_try_failed [OF assms(3)] by blast
  have run: "askQuestion plot out s =
               ?s1\<lparr>effects := effects ?s1 @ [ConsoleError e],
                    answer_text := lit ''Error: '' @ message e\<rparr>"
    using askQuestion_issued [OF assms(1,2)] askQuestion_resume_caught [OF e] by simp
  have rej: "\<forall>r. out = FetchRejected r \<or> out = JsonRejected r \<longrightarrow> e = r"
    using e by (auto simp add: askQuestion_try_rejected)
  have null: "\<forall>data. out = Response False data \<and> nullish data
                \<longrightarrow> get_prop data (lit ''error'') = Inl e"
    using e askQuestion_try_not_ok_nullish [of _ plot ?s1] by fastforce
  have backend: "\<forall>data str. out = Response False data \<and>
                              truthy (own_property data (lit ''error'')) \<and>
                              to_string (own_property data (lit ''error'')) = Inr str
                   \<longrightarrow> e = Error str"
    using e truthy_property_not_nullish
    by (auto simp add: askQuestion_try_not_ok throw_new_Error_cases)
  have unprintable: "\<forall>data t. out = Response False data \<and>
                               truthy (own_property data (lit ''error'')) \<and>
                               to_string (own_property data (lit ''error'')) = Inl t
                       \<longrightarrow> e = t"
    using e truthy_property_not_nullish
    by (auto simp add: askQuestion_try_not_ok throw_new_Error_cases)
  have generic: "\<forall>data. out = Response False data \<and> \<not> nullish data \<and>
                        \<not> truthy (own_property data (lit ''error''))
                   \<longrightarrow> e = Error (lit ''Ask failed'')"
    using e by (auto simp add: askQuestion_try_not_ok throw_new_Error_cases)
  have "answer_text (askQuestion plot out s) = lit ''Error: '' @ message e"
    and "effects (askQuestion plot out s) = effects s @ [ask_request s, ConsoleError e]"
    and "chartDiv (askQuestion plot out s) = chartDiv s"
    by (simp_all add: run)
  with rej null backend unprintable generic show ?thesis
    by blast
qed

theorem askQuestion_failure_witness:
  "trim (questionInput_value page_in_use) \<noteq> [] \<and> truthy (DATASET_ID page_in_use) \<and>
   failed (Response False (JObj [(lit ''error'', JStr (lit ''Unknown column''))])) \<and>
   answer_text (askQuestion plot_drawn
                  (Response False (JObj [(lit ''error'', JStr (lit ''Unknown column''))]))
                  page_in_use) = lit ''Error: Unknown column'' \<and>
   chartDiv (askQuestion plot_drawn
               (Response False (JObj [(lit ''error'', JStr (lit ''Unknown column''))]))
               page_in_use) =
     Plotted (JArr [JObj [(lit ''type'', JStr (lit ''bar''))]]) (JObj []) \<and>
   failed (Response False error_without_text) \<and>
   answer_text (askQuestion plot_drawn (Response False error_without_text) page_in_use) =
     lit ''Error: Cannot convert object to primitive value''"
proof -
  let ?data = "JObj [(lit ''error'', JStr (lit ''Unknown column''))]"
  have q: "trim (questionInput_value page_in_use) \<noteq> []"
    by (simp add: page_in_use_def string_eval)
  have d: "truthy (DATASET_ID page_in_use)"
    by (simp add: page_in_use_def lit_def)
  have f: "failed (Response False ?data)" and f': "failed (Response False error_without_text)"
    by simp_all
  have err: "truthy (own_property ?data (lit ''error''))"
    and err_text: "to_string (own_property ?data (lit ''error'')) = Inr (lit ''Unknown column'')"
    by (simp_all add: lit_def)
  have err': "truthy (own_property error_without_text (lit ''error''))"
    and err_none: "to_string (own_property error_without_text (lit ''error'')) =
                     Inl (TypeError (lit ''Cannot convert object to primitive value''))"
    by (simp_all add: error_without_text_def lit_def)
  have c: "chartDiv page_in_use = Plotted (JArr [JObj [(lit ''type'', JStr (lit ''bar''))]]) (JObj [])"
    by (simp add: page_in_use_def)
  from askQuestion_failure [OF q d f, of plot_drawn] obtain e where
    a: "answer_text (askQuestion plot_drawn (Response False ?data) page_in_use) =
          lit ''Error: '' @ message e"
    and k: "chartDiv (askQuestion plot_drawn (Response False ?data) page_in_use) =
              chartDiv page_in_use"
    and b: "\<forall>data str. Response False ?data = Response False data \<and>
                    truthy (own_property data (lit ''error'')) \<and>
                    to_string (own_property data (lit ''error'')) = Inr str
              \<longrightarrow> e = Error str"
    by (elim exE conjE) (rule that; assumption)
  from b [rule_format, of ?data "lit ''Unknown column''"] err err_text
  have "e = Error (lit ''Unknown column'')"
    by simp
  with a have shown: "answer_text (askQuestion plot_drawn (Response False ?data) page_in_use) =
                        lit ''Error: Unknown column''"
    by (simp add: lit_def)
  from askQuestion_failure [OF q d f', of plot_drawn] obtain e' where
    a': "answer_text (askQuestion plot_drawn (Response False error_without_text) page_in_use) =
           lit ''Error: '' @ message e'"
    and b': "\<forall>data t. Response False error_without_text = Response False data \<and>
                    truthy (own_property data (lit ''error'')) \<and>
                    to_string (own_property data (lit ''error'')) = Inl t
              \<longrightarrow> e' = t"
    by (elim exE conjE) (rule that; assumption)
  from b' [rule_format, of error_without_text
             "TypeError (lit ''Cannot convert object to primitive value'')"] err' err_none
  have "e' = TypeError (lit ''Cannot convert object to primitive value'')"
    by simp
  with a' have shown':
    "answer_text (askQuestion plot_drawn (Response False error_without_text) page_in_use) =
       lit ''Error: Cannot convert object to primitive value''"
    by (simp add: lit_def)
  from q d f f' k c shown shown' show ?thesis
    by simp
qed

subsection \<open>A failed upload\<close>

lemma handleUpload_issued:
  assumes "fileInput_files s \<noteq> []"
  shows "handleUpload out s =
           handleUpload_resume out
             (emit (Fetch (lit ''/api/upload'') (FormData (hd (fileInput_files s))))
                (s\<lparr>dropzone_text := lit ''Uploading...''\<rparr>))"
  using assms
  by (cases "fileInput_files s") (simp_all add: handleUpload_def handleUpload_start_def)

lemma handleUpload_try_failed:
  assumes "failed out"
  shows "\<exists>e. handleUpload_try out s = (Some e, s)"
  using assms
  by (cases out) (auto simp add: handleUpload_try_def split: sum.splits)

lemma handleUpload_try_rejected:
  "handleUpload_try (FetchRejected e) s = (Some e, s)"
  "handleUpload_try (JsonRejected e) s = (Some e, s)"
  by (simp_all add: handleUpload_try_def)

lemma handleUpload_try_not_ok:
  assumes "\<not> nullish data"
  shows "handleUpload_try (Response False data) s =
           (Some (throw_new_Error (own_property data (lit ''error'')) (lit ''Upload failed'')),
            s)"
  using assms by (simp add: handleUpload_try_def get_prop_def)

lemma handleUpload_try_not_ok_nullish:
  assumes "nullish data"
  shows "\<exists>e. get_prop data (lit ''error'') = Inl e \<and>
             handleUpload_try (Response False data) s = (Some e, s)"
  using assms by (simp add: handleUpload_try_def get_prop_def)

lemma handleUpload_resume_caught:
  assumes "handleUpload_try out s = (Some e, s)"
  shows "handleUpload_resume out s =
           s\<lparr>effects := effects s @ [ConsoleError e],
             dropzone_text := lit ''Error: '' @ message e\<rparr>"
  using assms by (simp add: handleUpload_resume_def upload_catch_def emit_def)

text \<open>
  C6: when the upload of a chosen file fails (a rejected \<^verbatim>\<open>fetch\<close>, a body that does not
  parse, a response that is not 2xx), \<^verbatim>\<open>DATASET_ID\<close> keeps the value it had, null or the
  handle of an earlier upload, and the dropzone shows \<^verbatim>\<open>Error: \<close> followed by the message
  of the exception \<open>e\<close> that was caught and logged. That exception is the rejection
  itself; or, for a response that is not 2xx, the TypeError of reading \<^verbatim>\<open>data.error\<close>
  when the body is null, an error carrying the backend's \<^verbatim>\<open>error\<close> field as text when
  the field is truthy, the TypeError of that conversion when the field has no text, and
  an error saying \<^verbatim>\<open>Upload failed\<close> when the field is falsy.
\<close>

theorem handleUpload_failure:
  assumes "fileInput_files s \<noteq> []" and "failed out"
  shows "DATASET_ID (handleUpload out s) = DATASET_ID s \<and>
         (\<exists>e. dropzone_text (handleUpload out s) = lit ''Error: '' @ message e \<and>
              effects (handleUpload out s) =
                effects s @ [Fetch (lit ''/api/upload'') (FormData (hd (fileInput_files s))),
                             ConsoleError e] \<and>
              (\<forall>r. out = FetchRejected r \<or> out = JsonRejected r \<longrightarrow> e = r) \<and>
              (\<forall>data. out = Response False data \<and> nullish data
                 \<longrightarrow> get_prop data (lit ''error'') = Inl e) \<and>
              (\<forall>data str. out = Response False data \<and>
                            truthy (own_property data (lit ''error'')) \<and>
                            to_string (own_property data (lit ''error'')) = Inr str
                 \<longrightarrow> e = Error str) \<and>
              (\<forall>data t. out = Response False data \<and>
                          truthy (own_property data (lit ''error'')) \<and>
                          to_string (own_property data (lit ''error'')) = Inl t
                 \<longrightarrow> e = t) \<and>
              (\<forall>data. out = Response False data \<and> \<not> nullish data \<and>
                        \<not> truthy (own_property data (lit ''error''))
                 \<longrightarrow> e = Error (lit ''Upload failed'')))"
proof -
  let ?s1 = "emit (Fetch (lit ''/api/upload'') (FormData (hd (fileInput_files s))))
               (s\<lparr>dropzone_text := lit ''Uploading...''\<rparr>)"
  obtain e where e: "handleUpload_try out ?s1 = (Some e, ?s1)"
    using handleUpload_try_failed [OF assms(2)] by blast
  have run: "handleUpload out s =
               ?s1\<lparr>effects := effects ?s1 @ [ConsoleError e],
                    dropzone_text := lit ''Error: '' @ message e\<rparr>"
    using handleUpload_issued [OF assms(1)] handleUpload_resume_caught [OF e] by simp
  have rej: "\<forall>r. out = FetchRejected r \<or> out = JsonRejected r \<longrightarrow> e = r"
    using e by (auto simp add: handleUpload_try_rejected)
  have null: "\<forall>data. out = Response False data \<and> nullish data
                \<longrightarrow> get_prop data (lit ''error'') = Inl e"
    using e handleUpload_try_not_ok_nullish [of _ ?s1] by fastforce
  have backend: "\<forall>data str. out = Response False data \<and>
                              truthy (own_property data (lit ''error'')) \<and>
                              to_string (own_property data (lit ''error'')) = Inr str
                   \<longrightarrow> e = Error str"
    using e truthy_property_not_nullish
    by (auto simp add: handleUpload_try_not_ok throw_new_Error_cases)
  have unprintable: "\<forall>data t. out = Response False data \<and>
                               truthy (own_property data (lit ''error'')) \<and>
                               to_string (own_property data (lit ''error'')) = Inl t
                       \<longrightarrow> e = t"
    using e truthy_property_not_nullish
    by (auto simp add: handleUpload_try_not_ok throw_new_Error_cases)
  have generic: "\<forall>data. out = Response False data \<and> \<not> nullish data \<and>
                        \<not> truthy (own_property data (lit ''error''))
                   \<longrightarrow> e = Error (lit ''Upload failed'')"
    using e by (auto simp add: handleUpload_try_not_ok throw_new_Error_cases)
  have "DATASET_ID (handleUpload out s) = DATASET_ID s"
    and "dropzone_text (handleUpload out s) = lit ''Error: '' @ message e"
    and "effects (handleUpload out s) =
           effects s @ [Fetch (lit ''/api/upload'') (FormData (hd (fileInput_files s))),
                        ConsoleError e]"
    by (simp_all add: run)
  with rej null backend unprintable generic show ?thesis
    by blast
qed

theorem handleUpload_failure_witness:
  "fileInput_files (page_in_use\<lparr>fileInput_files := [UploadFile (lit ''sales.csv'')]\<rparr>) \<noteq> [] \<and>
   failed (Response False (JObj [])) \<and>
   DATASET_ID (handleUpload (Response False (JObj []))
                 (page_in_use\<lparr>fileInput_files := [UploadFile (lit ''sales.csv'')]\<rparr>)) =
     JStr (lit ''d1'') \<and>
   dropzone_text (handleUpload (Response False (JObj []))
                    (page_in_use\<lparr>fileInput_files := [UploadFile (lit ''sales.csv'')]\<rparr>)) =
     lit ''Error: Upload failed'' \<and>
   failed (Response False JNull) \<and>
   dropzone_text (handleUpload (Response False JNull)
                    (page_in_use\<lparr>fileInput_files := [UploadFile (lit ''sales.csv'')]\<rparr>)) =
     lit ''Error: Cannot read properties of null (reading '' @ [39] @ lit ''error'' @ [39] @
     lit '')''"
proof -
  let ?s = "page_in_use\<lparr>fileInput_files := [UploadFile (lit ''sales.csv'')]\<rparr>"
  have chosen: "fileInput_files ?s \<noteq> []"
    by simp
  have f: "failed (Response False (JObj []))" and f': "failed (Response False JNull)"
    by simp_all
  have nn: "\<not> nullish (JObj [])" and ne: "\<not> truthy (own_property (JObj []) (lit ''error''))"
    by (simp_all add: nullish_def)
  have nl: "nullish JNull"
    by (simp add: nullish_def)
  have rd: "get_prop JNull (lit ''error'') =
              Inl (TypeError (lit ''Cannot read properties of null (reading '' @ [39] @
                              lit ''error'' @ [39] @ lit '')''))"
    by (simp add: get_prop_def nullish_def lit_def)
  have id: "DATASET_ID ?s = JStr (lit ''d1'')"
    by (simp add: page_in_use_def)
  from handleUpload_failure [OF chosen f] obtain e where
    keep: "DATASET_ID (handleUpload (Response False (JObj [])) ?s) = DATASET_ID ?s"
    and shown: "dropzone_text (handleUpload (Response False (JObj [])) ?s) =
                  lit ''Error: '' @ message e"
    and g: "\<forall>data. Response False (JObj []) = Response False data \<and> \<not> nullish data \<and>
                    \<not> truthy (own_property data (lit ''error''))
              \<longrightarrow> e = Error (lit ''Upload failed'')"
    by (elim exE conjE) (rule that; assumption)
  from g [rule_format, of "JObj []"] nn ne have "e = Error (lit ''Upload failed'')"
    by simp
  with shown have r1: "dropzone_text (handleUpload (Response False (JObj [])) ?s) =
                         lit ''Error: Upload failed''"
    by (simp add: lit_def)
  from handleUpload_failure [OF chosen f'] obtain e' where
    shown': "dropzone_text (handleUpload (Response False JNull) ?s) =
               lit ''Error: '' @ message e'"
    and g': "\<forall>data. Response False JNull = Response False data \<and> nullish data
               \<longrightarrow> get_prop data (lit ''error'') = Inl e'"
    by (elim exE conjE) (rule that; assumption)
  from g' [rule_format, of JNull] nl have "get_prop JNull (lit ''error'') = Inl e'"
    by simp
  with rd have "e' = TypeError (lit ''Cannot read properties of null (reading '' @ [39] @
                                lit ''error'' @ [39] @ lit '')'')"
    by simp
  with shown' have r2: "dropzone_text (handleUpload (Response False JNull) ?s) =
     lit ''Error: Cannot read properties of null (reading '' @ [39] @ lit ''error'' @ [39] @
     lit '')''"
    by (simp add: lit_def)
  from chosen f f' keep id r1 r2 show ?thesis
    by simp
qed

subsection \<open>Downloading the chart\<close>

text \<open>
  C8: the click on the PNG button. Without a plot (no chart element, or one whose
  \<^verbatim>\<open>data\<close> is unset) the handler raises the alert and asks for no export. With a plot it
  asks Plotly for a PNG of the chart element at width 1000 and height 600; when that
  yields a data URL it saves it as \<^verbatim>\<open>chart.png\<close>, and when it fails it logs the exception
  and raises an alert. In every case the state is as before except for the log.
\<close>

theorem downloadPng_click_behaviour:
  "(chartDiv s = NoChartDiv \<or> chartDiv s = Blank \<longrightarrow>
      downloadPng_click exported s =
        s\<lparr>effects := effects s @ [Alert (lit ''No chart available to download.'')]\<rparr>) \<and>
   (\<forall>d l url. chartDiv s = Plotted d l \<and> exported = Inr url \<longrightarrow>
      downloadPng_click exported s =
        s\<lparr>effects := effects s @
             [ToImage (Plotted d l) \<lparr>format = lit ''png'', height = 600, width = 1000\<rparr>,
              SaveFile url (lit ''chart.png'')]\<rparr>) \<and>
   (\<forall>d l e. chartDiv s = Plotted d l \<and> exported = Inl e \<longrightarrow>
      downloadPng_click exported s =
        s\<lparr>effects := effects s @
             [ToImage (Plotted d l) \<lparr>format = lit ''png'', height = 600, width = 1000\<rparr>,
              ConsoleError e, Alert (lit ''Could not download chart as PNG.'')]\<rparr>)"
  by (auto simp add: downloadPng_click_def emit_def)

theorem downloadPng_click_behaviour_witness:
  "chartDiv page_loaded = Blank \<and>
   effects (downloadPng_click (Inr (lit ''data:image/png;base64,AAAA'')) page_loaded) =
     [Alert (lit ''No chart available to download.'')] \<and>
   chartDiv page_in_use = Plotted (JArr [JObj [(lit ''type'', JStr (lit ''bar''))]]) (JObj []) \<and>
   effects (downloadPng_click (Inr (lit ''data:image/png;base64,AAAA'')) page_in_use) =
     [ToImage (Plotted (JArr [JObj [(lit ''type'', JStr (lit ''bar''))]]) (JObj []))
        \<lparr>format = lit ''png'', height = 600, width = 1000\<rparr>,
      SaveFile (lit ''data:image/png;base64,AAAA'') (lit ''chart.png'')] \<and>
   effects (downloadPng_click (Inl (Error (lit ''export failed''))) page_in_use) =
     [ToImage (Plotted (JArr [JObj [(lit ''type'', JStr (lit ''bar''))]]) (JObj []))
        \<lparr>format = lit ''png'', height = 600, width = 1000\<rparr>,
      ConsoleError (Error (lit ''export failed'')),
      Alert (lit ''Could not download chart as PNG.'')]"
proof -
  let ?url = "lit ''data:image/png;base64,AAAA''"
  let ?err = "Error (lit ''export failed'')"
  have blank: "chartDiv page_loaded = Blank" and e0: "effects page_loaded = []"
    by (simp_all add: page_loaded_def)
  have plot: "chartDiv page_in_use =
                Plotted (JArr [JObj [(lit ''type'', JStr (lit ''bar''))]]) (JObj [])"
    and e1: "effects page_in_use = []"
    by (simp_all add: page_in_use_def page_loaded_def)
  have "downloadPng_click (Inr ?url) page_loaded =
          page_loaded\<lparr>effects := effects page_loaded @
                                    [Alert (lit ''No chart available to download.'')]\<rparr>"
    using blank downloadPng_click_behaviour [of page_loaded "Inr ?url"] by simp
  moreover have "downloadPng_click (Inr ?url) page_in_use =
          page_in_use\<lparr>effects := effects page_in_use @
             [ToImage (Plotted (JArr [JObj [(lit ''type'', JStr (lit ''bar''))]]) (JObj []))
                \<lparr>format = lit ''png'', height = 600, width = 1000\<rparr>,
              SaveFile ?url (lit ''chart.png'')]\<rparr>"
    using plot downloadPng_click_behaviour [of page_in_use "Inr ?url"] by simp
  moreover have "downloadPng_click (Inl ?err) page_in_use =
          page_in_use\<lparr>effects := effects page_in_use @
             [ToImage (Plotted (JArr [JObj [(lit ''type'', JStr (lit ''bar''))]]) (JObj []))
                \<lparr>format = lit ''png'', height = 600, width = 1000\<rparr>,
              ConsoleError ?err, Alert (lit ''Could not download chart as PNG.'')]\<rparr>"
    using plot downloadPng_click_behaviour [of page_in_use "Inl ?err"] by simp
  ultimately show ?thesis
    using blank plot e0 e1 by simp
qed

subsection \<open>The type label of a column without an entry\<close>

text \<open>The fallback the source does have: without \<^verbatim>\<open>logical_types\<close> the label is empty.\<close>

lemma column_card_without_type_map:
  assumes "\<not> truthy (own_property meta (lit ''logical_types''))"
    and "to_string c = Inr name"
  shows "column_card meta c =
           Inr \<lparr>className = lit ''card'',
                innerHTML = lit ''<b>'' @ name @ lit ''</b><br/><small></small>''\<rparr>"
  using assms by (simp add: column_card_def lit_def)

text \<open>
  C1: \<^verbatim>\<open>renderMeta\<close> on the metadata of the example, where \<^verbatim>\<open>logical_types\<close> is present
  and has no entry for the columns \<^verbatim>\<open>b\<close> and \<^verbatim>\<open>c\<close>. The read
  \<^verbatim>\<open>meta.logical_types[c]\<close> yields undefined, which the template literal prints as the
  text \<^verbatim>\<open>undefined\<close>: the label of those two cards is that word, not the empty string.
  The empty label is produced only when \<^verbatim>\<open>logical_types\<close> as a whole is missing.
\<close>

theorem renderMeta_missing_type_entry:
  "map innerHTML (columnsGrid (snd (renderMeta example_meta page_loaded))) =
     [lit ''<b>a</b><br/><small>numeric</small>'',
      lit ''<b>b</b><br/><small>undefined</small>'',
      lit ''<b>c</b><br/><small>undefined</small>'']"
  by (simp add: renderMeta_def page_loaded_def get_prop_def nullish_def column_card_def
      summary_html_def read_member_def num_def object_members_def example_meta_def lit_def)

end
